theory Spec2Isabelle
  imports Main "HOL-Library.Word" "HOL-Library.Sublist"
begin

section \<open>Python values, exceptions and declared types\<close>

text \<open>
  The values a fake.py provider can return and a caller can pass. A float is kept as its
  IEEE-754 bit pattern (no arithmetic is done on it here), a byte as an 8-bit word, a
  string as a list of characters (tool and parameter names are ASCII identifiers).
\<close>

type_synonym byte = "8 word"

datatype pyval =
    PyNone
  | PyBool bool
  | PyInt int
  | PyFloat "64 word"
  | PyStr string
  | PyBytes "byte list"
  | PyTuple "pyval list"
  | PyList "pyval list"
  | PyDate nat nat nat
  | PyDateTime nat nat nat nat nat nat
  | PyUUID "128 word"

text \<open>
  An exception is its class name, whether that class derives from \<open>Exception\<close> (a
  \<open>KeyboardInterrupt\<close> or \<open>SystemExit\<close> does not, and \<open>except Exception\<close> lets it
  pass), its message, the text \<open>str(e)\<close> that an f-string prints, and its
  \<open>__context__\<close>: the exception that was being handled when this one was raised, if
  there was one.
\<close>

datatype pyexc =
  PyExc (exc_class: string) (derives_Exception: bool) (exc_str: string)
    (exc_context: "pyexc option")

definition TypeError :: "string \<Rightarrow> pyexc" where
  "TypeError msg = PyExc ''TypeError'' True msg None"

definition RuntimeError :: "string \<Rightarrow> pyexc" where
  "RuntimeError msg = PyExc ''RuntimeError'' True msg None"

definition AttributeError :: "string \<Rightarrow> pyexc" where
  "AttributeError msg = PyExc ''AttributeError'' True msg None"

text \<open>
  A \<open>raise\<close> inside an \<open>except\<close> block: Python sets the \<open>__context__\<close> of the new
  exception to the one being handled (implicit exception chaining).
\<close>

definition raise_in_except :: "pyexc \<Rightarrow> pyexc \<Rightarrow> pyexc" where
  "raise_in_except new handled =
     PyExc (exc_class new) (derives_Exception new) (exc_str new) (Some handled)"

text \<open>
  A declared parameter type (an annotation). \<open>TyUnion args\<close> is \<open>typing.Union[...]\<close>,
  which is also what \<open>typing.Optional[T]\<close> builds. \<open>TyUnionType args\<close> is a union
  written \<open>X | Y\<close> (PEP 604) where the interpreter makes it an object of
  \<open>types.UnionType\<close>, as Python 3.10 to 3.13 do: \<open>get_origin\<close> then answers
  \<open>types.UnionType\<close>, which is not \<open>typing.Union\<close>. \<open>TyGeneric c args\<close> is a
  subscripted generic such as \<open>List[int]\<close>; \<open>TyOther c\<close> is any other class or
  annotation object (\<open>list\<close>, \<open>dict\<close>, \<open>bytes\<close>, ...).
\<close>

datatype pytype =
    TyInt
  | TyStr
  | TyFloat
  | TyBool
  | TyNoneType
  | TyUnion "pytype list"
  | TyUnionType "pytype list"
  | TyGeneric string "pytype list"
  | TyOther string

datatype type_origin = typing_Union | types_UnionType | origin_class string

fun get_origin :: "pytype \<Rightarrow> type_origin option" where
  "get_origin (TyUnion args) = Some typing_Union"
| "get_origin (TyUnionType args) = Some types_UnionType"
| "get_origin (TyGeneric c args) = Some (origin_class c)"
| "get_origin _ = None"

fun get_args :: "pytype \<Rightarrow> pytype list" where
  "get_args (TyUnion args) = args"
| "get_args (TyUnionType args) = args"
| "get_args (TyGeneric c args) = args"
| "get_args _ = []"

text \<open>
  \<open>inspect.Parameter\<close>: \<open>None\<close> in \<open>param_annotation\<close> and \<open>param_default\<close> stands
  for \<open>inspect.Parameter.empty\<close>. A signature is the list of its parameters in
  declaration order; \<open>sig.parameters.items()\<close> pairs each with its own name.
\<close>

datatype parameter_kind =
  POSITIONAL_ONLY | POSITIONAL_OR_KEYWORD | VAR_POSITIONAL | KEYWORD_ONLY | VAR_KEYWORD

record param =
  param_name :: string
  param_kind :: parameter_kind
  param_annotation :: "pytype option"
  param_default :: "pyval option"

text \<open>
  A callable of the generator library: its \<open>__name__\<close>, its signature, its docstring and
  what one call with the given keyword arguments does (returns a value or raises).
\<close>

type_synonym kwargs = "string \<rightharpoonup> pyval"

record py_callable =
  m_name :: string
  m_signature :: "param list"
  m_doc :: "string option"
  m_call :: "kwargs \<Rightarrow> pyexc + pyval"

section \<open>Return type inference\<close>

datatype wire_type = W_str | W_float | W_bool | W_int | W_List_float | W_List_str

definition endswith :: "string \<Rightarrow> string \<Rightarrow> bool" where
  "endswith s suf =
     (length suf \<le> length s \<and> drop (length s - length suf) s = suf)"

definition BINARY_FORMATS :: "string list" where
  "BINARY_FORMATS =
     [''bmp'', ''docx'', ''eml'', ''epub'', ''gif'', ''jpg'', ''odt'', ''pdf'', ''png'', ''ppm'',
      ''rtf'', ''svg'', ''tar'', ''tif'', ''wav'', ''zip'']"

definition get_return_type :: "py_callable \<Rightarrow> wire_type" where
  "get_return_type method =
     (let name = m_name method in
      if name \<in> set BINARY_FORMATS then W_str
      else if endswith name ''_file'' then W_str
      else if name \<in> {''latitude_longitude''} then W_List_float
      else if name \<in> {''first_names'', ''last_names'', ''names'', ''usernames'',
                       ''paragraphs'', ''sentences'', ''slugs'', ''texts'', ''words''}
        then W_List_str
      else if name \<in> {''uuid''} then W_str
      else if name \<in> {''date''} then W_str
      else if name \<in> {''date_time''} then W_str
      else if name \<in> {''latitude'', ''longitude''} then W_float
      else if name \<in> {''pybool''} then W_bool
      else if name \<in> {''pyint'', ''year''} then W_int
      else W_str)"

text \<open>
  The policy as the specification words it: an ordered table of rules, the first rule
  whose test accepts the name gives the tag, and \<open>string\<close> is the default.
\<close>

definition return_type_policy :: "((string \<Rightarrow> bool) \<times> wire_type) list" where
  "return_type_policy =
     [(\<lambda>n. n \<in> set BINARY_FORMATS, W_str),
      (\<lambda>n. endswith n ''_file'', W_str),
      (\<lambda>n. n = ''latitude_longitude'', W_List_float),
      (\<lambda>n. n \<in> set [''first_names'', ''last_names'', ''names'', ''usernames'',
                      ''paragraphs'', ''sentences'', ''slugs'', ''texts'', ''words''],
         W_List_str),
      (\<lambda>n. n = ''uuid'' \<or> n = ''date'' \<or> n = ''date_time'', W_str),
      (\<lambda>n. n = ''latitude'' \<or> n = ''longitude'', W_float),
      (\<lambda>n. n = ''pybool'', W_bool),
      (\<lambda>n. n = ''pyint'' \<or> n = ''year'', W_int)]"

fun first_match :: "((string \<Rightarrow> bool) \<times> wire_type) list \<Rightarrow> string \<Rightarrow> wire_type" where
  "first_match [] n = W_str"
| "first_match ((test, tag) # rules) n = (if test n then tag else first_match rules n)"

section \<open>Parameter support helpers\<close>

definition SIMPLE_TYPES :: "pytype list" where
  "SIMPLE_TYPES = [TyInt, TyStr, TyFloat, TyBool]"

definition is_supported_type :: "pytype \<Rightarrow> bool" where
  "is_supported_type typ =
     (let origin = get_origin typ in
      if origin = Some typing_Union then
        (let args = get_args typ in
         if length args = 2 \<and> TyNoneType \<in> set args then
           (let other = (if args ! 1 = TyNoneType then args ! 0 else args ! 1)
            in other \<in> set SIMPLE_TYPES)
         else False)
      else typ \<in> set SIMPLE_TYPES)"

text \<open>\<open>str.lower()\<close> on an ASCII name.\<close>

definition lower :: "string \<Rightarrow> string" where
  "lower s =
     map (\<lambda>c. if 65 \<le> (of_char c :: nat) \<and> (of_char c :: nat) \<le> 90
               then char_of (of_char c + 32 :: nat) else c) s"

text \<open>
  The loop of \<open>get_supported_params\<close>: \<open>supported\<close> is the list built so far, each
  \<open>continue\<close> goes on with the rest of the parameters and leaves it as it is.
\<close>

fun get_supported_params_loop ::
  "param list \<Rightarrow> (string \<times> param) list \<Rightarrow> (string \<times> param) list" where
  "get_supported_params_loop [] supported = supported"
| "get_supported_params_loop (param # rest) supported =
     (let name = param_name param in
      if param_kind param \<in> {VAR_POSITIONAL, VAR_KEYWORD}
        then get_supported_params_loop rest supported
      else if lower name \<in> {''options''}
        then get_supported_params_loop rest supported
      else (case param_annotation param of
          None \<Rightarrow> get_supported_params_loop rest supported
        | Some typ \<Rightarrow>
            if \<not> is_supported_type typ
              then get_supported_params_loop rest supported
            else get_supported_params_loop rest (supported @ [(name, param)])))"

definition get_supported_params :: "param list \<Rightarrow> (string \<times> param) list" where
  "get_supported_params sig = get_supported_params_loop sig []"


section \<open>Base64\<close>

text \<open>
  \<open>base64.b64encode\<close> (RFC 4648, standard alphabet, padded): three bytes give four
  characters of six bits each; a last group of one or two bytes is padded with \<open>=\<close>.
\<close>

definition b64_alphabet :: string where
  "b64_alphabet = ''ABCDEFGHIJKLMNOPQRSTUVWXYZabcdefghijklmnopqrstuvwxyz0123456789+/''"

definition b64_char :: "nat \<Rightarrow> char" where
  "b64_char k = b64_alphabet ! k"

fun b64encode :: "byte list \<Rightarrow> string" where
  "b64encode [] = []"
| "b64encode [a] =
     (let n = unat a * 16
      in [b64_char (n div 64), b64_char (n mod 64), CHR ''='', CHR ''=''])"
| "b64encode [a, b] =
     (let n = (unat a * 256 + unat b) * 4
      in [b64_char (n div 4096), b64_char (n div 64 mod 64), b64_char (n mod 64), CHR ''=''])"
| "b64encode (a # b # c # rest) =
     (let n = unat a * 65536 + unat b * 256 + unat c
      in [b64_char (n div 262144), b64_char (n div 4096 mod 64),
          b64_char (n div 64 mod 64), b64_char (n mod 64)] @ b64encode rest)"

text \<open>
  Decoding of a padded base64 text, as \<open>base64.b64decode\<close> does on well-formed input:
  four characters give three bytes, \<open>=\<close> is accepted only as padding of the last group,
  and a text that is not well-formed has no decoding (\<open>None\<close>).
\<close>

fun index_of :: "'a \<Rightarrow> 'a list \<Rightarrow> nat option" where
  "index_of x [] = None"
| "index_of x (y # ys) = (if x = y then Some 0 else map_option Suc (index_of x ys))"

definition b64_value :: "char \<Rightarrow> nat option" where
  "b64_value c = index_of c b64_alphabet"

fun b64decode :: "string \<Rightarrow> byte list option" where
  "b64decode [] = Some []"
| "b64decode (c1 # c2 # c3 # c4 # rest) =
     (if rest = [] \<and> c3 = CHR ''='' \<and> c4 = CHR ''='' then
        (case (b64_value c1, b64_value c2) of
           (Some v1, Some v2) \<Rightarrow> Some [of_nat ((v1 * 64 + v2) div 16)]
         | _ \<Rightarrow> None)
      else if rest = [] \<and> c4 = CHR ''='' then
        (case (b64_value c1, b64_value c2, b64_value c3) of
           (Some v1, Some v2, Some v3) \<Rightarrow>
             (let n = (v1 * 4096 + v2 * 64 + v3) div 4
              in Some [of_nat (n div 256), of_nat (n mod 256)])
         | _ \<Rightarrow> None)
      else
        (case (b64_value c1, b64_value c2, b64_value c3, b64_value c4) of
           (Some v1, Some v2, Some v3, Some v4) \<Rightarrow>
             (let n = v1 * 262144 + v2 * 4096 + v3 * 64 + v4
              in map_option
                   (\<lambda>bs. of_nat (n div 65536) # of_nat (n div 256 mod 256) # of_nat (n mod 256) # bs)
                   (b64decode rest))
         | _ \<Rightarrow> None))"
| "b64decode _ = None"

section \<open>Result serialisation\<close>

text \<open>
  Python's own \<open>str(x)\<close> and the \<open>isoformat\<close> method are not code of this repository:
  they are parameters. Either of them returns a text or raises; what it raises on a value
  is an ordinary exception, one deriving from \<open>Exception\<close>, given by its class and its
  message (\<open>str\<close> of an integer of more than 4300 digits raises \<open>ValueError\<close>).
  \<open>isoformat_of x = None\<close> says that \<open>x\<close> has no attribute \<open>isoformat\<close>.
\<close>

datatype raised = Raised (raised_class: string) (raised_str: string)

definition raised_exception :: "raised \<Rightarrow> pyexc" where
  "raised_exception x = PyExc (raised_class x) True (raised_str x) None"

record builtins =
  str_of :: "pyval \<Rightarrow> raised + string"
  isoformat_of :: "pyval \<Rightarrow> (raised + string) option"

text \<open>The text a built-in returned, as the value to return; its exception, as raised.\<close>

definition text_result :: "raised + string \<Rightarrow> pyexc + pyval" where
  "text_result outcome =
     (case outcome of Inl x \<Rightarrow> Inl (raised_exception x) | Inr s \<Rightarrow> Inr (PyStr s))"

fun type_name :: "pyval \<Rightarrow> string" where
  "type_name PyNone = ''NoneType''"
| "type_name (PyBool b) = ''bool''"
| "type_name (PyInt i) = ''int''"
| "type_name (PyFloat f) = ''float''"
| "type_name (PyStr s) = ''str''"
| "type_name (PyBytes bs) = ''bytes''"
| "type_name (PyTuple xs) = ''tuple''"
| "type_name (PyList xs) = ''list''"
| "type_name (PyDate y m d) = ''datetime.date''"
| "type_name (PyDateTime y m d hh mm ss) = ''datetime.datetime''"
| "type_name (PyUUID u) = ''UUID''"

text \<open>\<open>list(x)\<close>: the elements of an iterable, \<open>TypeError\<close> for any other value.\<close>

fun py_list :: "pyval \<Rightarrow> pyexc + pyval" where
  "py_list (PyTuple xs) = Inr (PyList xs)"
| "py_list (PyList xs) = Inr (PyList xs)"
| "py_list (PyStr s) = Inr (PyList (map (\<lambda>c. PyStr [c]) s))"
| "py_list (PyBytes bs) = Inr (PyList (map (\<lambda>b. PyInt (uint b)) bs))"
| "py_list v =
     Inl (TypeError (CHR 0x27 # type_name v @ CHR 0x27 # '' object is not iterable''))"


definition serialise_result :: "builtins \<Rightarrow> string \<Rightarrow> pyval \<Rightarrow> pyexc + pyval" where
  "serialise_result py name result =
     (if name \<in> set BINARY_FORMATS then
        (case result of
           PyBytes bs \<Rightarrow> Inr (PyStr (b64encode bs))
         | _ \<Rightarrow> Inr result)
      else if name = ''uuid'' then text_result (str_of py result)
      else if name = ''date'' then
        text_result (case isoformat_of py result of
                       Some formatted \<Rightarrow> formatted | None \<Rightarrow> str_of py result)
      else if name = ''date_time'' then
        text_result (case isoformat_of py result of
                       Some formatted \<Rightarrow> formatted | None \<Rightarrow> str_of py result)
      else if name = ''latitude_longitude'' then py_list result
      else Inr result)"

section \<open>The synthesised wrapper\<close>

text \<open>
  What one invocation of a wrapper leaves behind: the lines written by \<open>LOGGER.error\<close>,
  and the keyword dictionaries the underlying callable was called with (a record of the
  calls made, kept to state that a call did or did not happen).
\<close>

record tool_state =
  logged :: "string list"
  invoked :: "kwargs list"

text \<open>
  The binding loop of \<open>tool_fn\<close>, \<open>for i, (name, param) in enumerate(params)\<close>:
  \<open>i\<close> is the index of the parameter at the head of the list, \<open>call_kwargs\<close> the
  dictionary built so far. A \<open>raise\<close> leaves the loop with the error.
\<close>

fun bind_loop ::
  "nat \<Rightarrow> (string \<times> param) list \<Rightarrow> pyval list \<Rightarrow> kwargs \<Rightarrow> kwargs \<Rightarrow> pyexc + kwargs" where
  "bind_loop i [] args kwargs call_kwargs = Inr call_kwargs"
| "bind_loop i ((name, param) # rest) args kwargs call_kwargs =
     (case kwargs name of
        Some v \<Rightarrow> bind_loop (Suc i) rest args kwargs (call_kwargs(name \<mapsto> v))
      | None \<Rightarrow>
          if i < length args
            then bind_loop (Suc i) rest args kwargs (call_kwargs(name \<mapsto> args ! i))
          else (case param_default param of
              Some d \<Rightarrow> bind_loop (Suc i) rest args kwargs (call_kwargs(name \<mapsto> d))
            | None \<Rightarrow> Inl (TypeError (''Missing required argument: '' @ name))))"

text \<open>The body of the \<open>try\<close>: call the method, then serialise what it returned.\<close>

definition call_and_serialise ::
  "builtins \<Rightarrow> py_callable \<Rightarrow> string \<Rightarrow> kwargs \<Rightarrow> pyexc + pyval" where
  "call_and_serialise py method attr call_kwargs =
     (case m_call method call_kwargs of
        Inl e \<Rightarrow> Inl e
      | Inr result \<Rightarrow> serialise_result py attr result)"

text \<open>
  The \<open>except Exception as e\<close> clause around that body: an exception deriving from
  \<open>Exception\<close> is logged and a \<open>RuntimeError\<close> is raised inside the \<open>except\<close>
  block, so with the caught one as its context; any other exception passes.
\<close>

definition except_Exception ::
  "string \<Rightarrow> pyexc + pyval \<Rightarrow> tool_state \<Rightarrow> (pyexc + pyval) \<times> tool_state" where
  "except_Exception attr body st =
     (case body of
        Inr v \<Rightarrow> (Inr v, st)
      | Inl e \<Rightarrow>
          if derives_Exception e then
            (Inl (raise_in_except
                    (RuntimeError (''fake.py error in '' @ attr @ ''(): '' @ exc_str e)) e),
             st\<lparr>logged := logged st @ [''Error in '' @ attr @ ''(): '' @ exc_str e]\<rparr>)
          else (Inl e, st))"

definition tool_fn ::
  "builtins \<Rightarrow> py_callable \<Rightarrow> string \<Rightarrow> (string \<times> param) list \<Rightarrow>
   pyval list \<Rightarrow> kwargs \<Rightarrow> tool_state \<Rightarrow> (pyexc + pyval) \<times> tool_state" where
  "tool_fn py method attr params args kwargs st =
     (case bind_loop 0 params args kwargs Map.empty of
        Inl e \<Rightarrow> (Inl e, st)
      | Inr call_kwargs \<Rightarrow>
          except_Exception attr (call_and_serialise py method attr call_kwargs)
            (st\<lparr>invoked := invoked st @ [call_kwargs]\<rparr>))"

text \<open>The wrapper built when no parameter is admissible: \<open>method()\<close> with no argument.\<close>

definition tool_fn_no_params ::
  "builtins \<Rightarrow> py_callable \<Rightarrow> string \<Rightarrow> tool_state \<Rightarrow> (pyexc + pyval) \<times> tool_state" where
  "tool_fn_no_params py method attr st =
     except_Exception attr (call_and_serialise py method attr Map.empty)
       (st\<lparr>invoked := invoked st @ [Map.empty]\<rparr>)"

text \<open>
  The binding rule in the words of the specification, with a cursor into the positional
  arguments: a parameter not given by keyword takes the next positional argument that
  no earlier parameter has consumed.
\<close>

fun bind_next_unconsumed ::
  "(string \<times> param) list \<Rightarrow> pyval list \<Rightarrow> kwargs \<Rightarrow> kwargs \<Rightarrow> pyexc + kwargs" where
  "bind_next_unconsumed [] unconsumed kwargs call_kwargs = Inr call_kwargs"
| "bind_next_unconsumed ((name, param) # rest) unconsumed kwargs call_kwargs =
     (case kwargs name of
        Some v \<Rightarrow> bind_next_unconsumed rest unconsumed kwargs (call_kwargs(name \<mapsto> v))
      | None \<Rightarrow>
          (case unconsumed of
             a # unconsumed' \<Rightarrow>
               bind_next_unconsumed rest unconsumed' kwargs (call_kwargs(name \<mapsto> a))
           | [] \<Rightarrow>
               (case param_default param of
                  Some d \<Rightarrow> bind_next_unconsumed rest [] kwargs (call_kwargs(name \<mapsto> d))
                | None \<Rightarrow> Inl (TypeError (''Missing required argument: '' @ name)))))"

text \<open>
  The value the code resolves for the parameter at index \<open>i\<close>: its keyword argument,
  else the positional argument at the same index \<open>i\<close>, else its default.
\<close>

definition resolve :: "pyval list \<Rightarrow> kwargs \<Rightarrow> nat \<Rightarrow> string \<times> param \<Rightarrow> pyval option" where
  "resolve args kwargs i np =
     (case kwargs (fst np) of
        Some v \<Rightarrow> Some v
      | None \<Rightarrow> if i < length args then Some (args ! i) else param_default (snd np))"

text \<open>The name of the first parameter, from index \<open>i\<close> on, for which nothing resolves.\<close>

fun first_missing ::
  "pyval list \<Rightarrow> kwargs \<Rightarrow> nat \<Rightarrow> (string \<times> param) list \<Rightarrow> string option" where
  "first_missing args kwargs i [] = None"
| "first_missing args kwargs i (np # rest) =
     (if resolve args kwargs i np = None then Some (fst np)
      else first_missing args kwargs (Suc i) rest)"

section \<open>Dynamic tool registration\<close>

text \<open>
  \<open>getattr(FAKER, attr)\<close>: a method, some attribute that is not callable, or no such
  attribute (\<open>None\<close>, where Python raises \<open>AttributeError\<close>).
\<close>

datatype faker_attr = Method py_callable | Not_callable

type_synonym faker = "string \<Rightarrow> faker_attr option"

text \<open>
  A registered tool is what \<open>make_tool_fn\<close> closes over and what \<open>MCP.tool\<close> is given:
  the name, the description, the method, its admissible parameters (empty for the
  wrapper without parameters) and the return annotation.
\<close>

record tool =
  tool_name :: string
  tool_description :: string
  tool_method :: py_callable
  tool_params :: "(string \<times> param) list"
  tool_return_type :: wire_type

type_synonym mcp = "tool list"

text \<open>
  Modelled from the spec: the dispatcher (FastMCP) is not code of this repository. The
  specification reads \<open>hasattr(MCP, attr)\<close> as "a tool of that name is already
  registered", and the repository's tests expect a registered tool as an attribute of
  \<open>MCP\<close>; so the registry is the list of the tools registered so far, in registration
  order, and \<open>hasattr\<close> looks the name up in it.
\<close>

definition hasattr_MCP :: "mcp \<Rightarrow> string \<Rightarrow> bool" where
  "hasattr_MCP MCP attr \<longleftrightarrow> attr \<in> set (map tool_name MCP)"

text \<open>
  Modelled from the spec: \<open>MCP.tool(name=attr, description=doc)(tool_fn)\<close>, the
  dispatcher's registration call, adds the tool to the registry.
\<close>

definition MCP_tool :: "mcp \<Rightarrow> tool \<Rightarrow> mcp" where
  "MCP_tool MCP t = MCP @ [t]"

definition startswith :: "string \<Rightarrow> string \<Rightarrow> bool" where
  "startswith s pre = (take (length pre) s = pre)"

text \<open>\<open>inspect.getdoc(method) or f"Fake.py: {attr}()"\<close>: no docstring or an empty one.\<close>

definition doc_of :: "py_callable \<Rightarrow> string \<Rightarrow> string" where
  "doc_of method attr =
     (case m_doc method of
        None \<Rightarrow> ''Fake.py: '' @ attr @ ''()''
      | Some d \<Rightarrow> if d = [] then ''Fake.py: '' @ attr @ ''()'' else d)"

text \<open>
  The loop of \<open>register_fakepy_tools\<close> over \<open>PROVIDER_LIST\<close>. Both branches of
  \<open>if params\<close> register under the same name and description; they differ in the
  wrapper, which \<open>tool_params\<close> tells apart.
\<close>

fun register_loop :: "faker \<Rightarrow> string list \<Rightarrow> mcp \<Rightarrow> pyexc + mcp" where
  "register_loop FAKER [] MCP = Inr MCP"
| "register_loop FAKER (attr # rest) MCP =
     (if startswith attr ''_'' then register_loop FAKER rest MCP
      else (case FAKER attr of
          None \<Rightarrow>
            Inl (AttributeError
                  (CHR 0x27 # ''Faker'' @ CHR 0x27 # '' object has no attribute '' @
                   CHR 0x27 # attr @ [CHR 0x27]))
        | Some Not_callable \<Rightarrow> register_loop FAKER rest MCP
        | Some (Method method) \<Rightarrow>
            if hasattr_MCP MCP attr then register_loop FAKER rest MCP
            else
              (let params = get_supported_params (m_signature method);
                   return_type = get_return_type method;
                   doc = doc_of method attr
               in register_loop FAKER rest
                    (MCP_tool MCP
                       \<lparr>tool_name = attr, tool_description = doc, tool_method = method,
                        tool_params = params, tool_return_type = return_type\<rparr>))))"

definition register_fakepy_tools :: "faker \<Rightarrow> string list \<Rightarrow> mcp \<Rightarrow> pyexc + mcp" where
  "register_fakepy_tools FAKER PROVIDER_LIST MCP = register_loop FAKER PROVIDER_LIST MCP"

text \<open>A name of the provider list that the pass does not skip for what it is.\<close>

definition qualifying :: "faker \<Rightarrow> string \<Rightarrow> bool" where
  "qualifying FAKER attr \<longleftrightarrow>
     \<not> startswith attr ''_'' \<and> (\<exists>method. FAKER attr = Some (Method method))"

section \<open>A concrete environment\<close>

text \<open>
  To evaluate the definitions at concrete inputs the two built-ins need values. Here
  \<open>isoformat\<close> is the one of \<open>datetime.date\<close> and of a \<open>datetime.datetime\<close> without
  microseconds and time zone; \<open>str\<close> is Python's on strings, \<open>None\<close>, booleans and
  integers (decimal digits, and \<open>ValueError\<close> beyond 4300 digits), the ISO text on
  dates, and only a placeholder on the other values.
\<close>

definition digit :: "nat \<Rightarrow> char" where
  "digit d = ''0123456789'' ! (d mod 10)"

definition pad2 :: "nat \<Rightarrow> string" where
  "pad2 n = [digit (n div 10), digit n]"

definition pad4 :: "nat \<Rightarrow> string" where
  "pad4 n = [digit (n div 1000), digit (n div 100), digit (n div 10), digit n]"

fun sample_isoformat :: "pyval \<Rightarrow> (raised + string) option" where
  "sample_isoformat (PyDate y m d) = Some (Inr (pad4 y @ ''-'' @ pad2 m @ ''-'' @ pad2 d))"
| "sample_isoformat (PyDateTime y m d hh mm ss) =
     Some (Inr (pad4 y @ ''-'' @ pad2 m @ ''-'' @ pad2 d @ ''T'' @
                pad2 hh @ '':'' @ pad2 mm @ '':'' @ pad2 ss))"
| "sample_isoformat v = None"

function decimal :: "nat \<Rightarrow> string" where
  "decimal n = (if n < 10 then [digit n] else decimal (n div 10) @ [digit n])"
  by pat_completeness auto
termination
  by (relation "measure id") auto

declare decimal.simps [simp del]

definition int_str :: "int \<Rightarrow> string" where
  "int_str i = (if i < 0 then CHR ''-'' # decimal (nat (- i)) else decimal (nat i))"

definition exceeds_digit_limit :: "int \<Rightarrow> bool" where
  "exceeds_digit_limit i \<longleftrightarrow> 10 ^ 4300 \<le> \<bar>i\<bar>"

fun sample_str :: "pyval \<Rightarrow> raised + string" where
  "sample_str (PyStr s) = Inr s"
| "sample_str PyNone = Inr ''None''"
| "sample_str (PyBool b) = Inr (if b then ''True'' else ''False'')"
| "sample_str (PyInt i) =
     (if exceeds_digit_limit i
      then Inl (Raised ''ValueError''
                 (''Exceeds the limit (4300 digits) for integer string conversion; '' @
                  ''use sys.set_int_max_str_digits() to increase the limit''))
      else Inr (int_str i))"
| "sample_str (PyDate y m d) = Inr (pad4 y @ ''-'' @ pad2 m @ ''-'' @ pad2 d)"
| "sample_str v = Inr (''<'' @ type_name v @ ''>'')"

definition sample_builtins :: builtins where
  "sample_builtins = \<lparr>str_of = sample_str, isoformat_of = sample_isoformat\<rparr>"

text \<open>
  A fresh state, a parameter annotated \<open>int\<close> with a given default, a callable given by
  what its call does, and three such behaviours: return the keyword argument of a given
  name, always end in the same outcome, and fake.py's \<open>pyint\<close> with its two defaulted
  parameters. \<open>sample_faker\<close> is a small generator object: two methods, a private
  method and an attribute that is not callable.
\<close>

definition sample_state :: tool_state where
  "sample_state = \<lparr>logged = [], invoked = []\<rparr>"

definition int_param :: "string \<Rightarrow> pyval option \<Rightarrow> string \<times> param" where
  "int_param name dflt =
     (name, \<lparr>param_name = name, param_kind = POSITIONAL_OR_KEYWORD,
              param_annotation = Some TyInt, param_default = dflt\<rparr>)"

definition returning :: "string \<Rightarrow> (kwargs \<Rightarrow> pyexc + pyval) \<Rightarrow> py_callable" where
  "returning name f = \<lparr>m_name = name, m_signature = [], m_doc = None, m_call = f\<rparr>"

definition echo :: "string \<Rightarrow> kwargs \<Rightarrow> pyexc + pyval" where
  "echo name kw =
     (case kw name of Some v \<Rightarrow> Inr v | None \<Rightarrow> Inl (PyExc ''KeyError'' True name None))"

definition always :: "pyexc + pyval \<Rightarrow> kwargs \<Rightarrow> pyexc + pyval" where
  "always outcome kw = outcome"

definition sample_pyint :: py_callable where
  "sample_pyint =
     \<lparr>m_name = ''pyint'',
      m_signature = [snd (int_param ''min_value'' (Some (PyInt 0))),
                     snd (int_param ''max_value'' (Some (PyInt 9999)))],
      m_doc = Some ''Generate a random integer.'',
      m_call = echo ''max_value''\<rparr>"

definition sample_faker :: faker where
  "sample_faker attr =
     (if attr = ''name'' then Some (Method (returning ''name'' (always (Inr (PyStr ''Ann'')))))
      else if attr = ''pyint'' then Some (Method sample_pyint)
      else if attr = ''_seed'' then Some (Method (returning ''_seed'' (always (Inr PyNone))))
      else if attr = ''version'' then Some Not_callable
      else None)"

text \<open>The registry that one registration pass builds from \<open>sample_faker\<close>.\<close>

definition sample_registry :: mcp where
  "sample_registry =
     [\<lparr>tool_name = ''name'', tool_description = ''Fake.py: name()'',
        tool_method = returning ''name'' (always (Inr (PyStr ''Ann''))),
        tool_params = [], tool_return_type = W_str\<rparr>,
      \<lparr>tool_name = ''pyint'', tool_description = ''Generate a random integer.'',
        tool_method = sample_pyint,
        tool_params = [int_param ''min_value'' (Some (PyInt 0)),
                       int_param ''max_value'' (Some (PyInt 9999))],
        tool_return_type = W_int\<rparr>]"

section \<open>Return type inference: the ordered policy\<close>

lemma listed_names_reach_their_rule:
  "n \<in> {''latitude_longitude'', ''first_names'', ''last_names'', ''names'', ''usernames'',
         ''paragraphs'', ''sentences'', ''slugs'', ''texts'', ''words'', ''latitude'',
         ''longitude'', ''pybool'', ''pyint'', ''year''} \<Longrightarrow>
   n \<notin> set BINARY_FORMATS \<and> \<not> endswith n ''_file''"
  by (auto simp: BINARY_FORMATS_def endswith_def)

text \<open>
  Claim C7. \<open>get_return_type\<close> has no error path and reads nothing of the callable but
  its name: its tag is the one the ordered first-match policy gives for the name
  (binary formats, then the \<open>_file\<close> suffix, \<open>latitude_longitude\<close>, the plural text
  generators, \<open>uuid\<close>/\<open>date\<close>/\<open>date_time\<close>, \<open>latitude\<close>/\<open>longitude\<close>, \<open>pybool\<close>,
  \<open>pyint\<close>/\<open>year\<close>, and \<open>string\<close> for any other name), it is the only tag, and two
  callables of the same name get the same tag. No earlier rule hides a later one: each
  tag other than \<open>string\<close> is given to exactly the names of its own rule.
\<close>

theorem get_return_type_first_match:
  "get_return_type m = first_match return_type_policy (m_name m) \<and>
   (\<exists>!t. get_return_type m = t) \<and>
   (\<forall>m'. m_name m' = m_name m \<longrightarrow> get_return_type m' = get_return_type m) \<and>
   (get_return_type m = W_List_float \<longleftrightarrow> m_name m = ''latitude_longitude'') \<and>
   (get_return_type m = W_List_str \<longleftrightarrow>
      m_name m \<in> {''first_names'', ''last_names'', ''names'', ''usernames'',
                   ''paragraphs'', ''sentences'', ''slugs'', ''texts'', ''words''}) \<and>
   (get_return_type m = W_float \<longleftrightarrow> m_name m \<in> {''latitude'', ''longitude''}) \<and>
   (get_return_type m = W_bool \<longleftrightarrow> m_name m = ''pybool'') \<and>
   (get_return_type m = W_int \<longleftrightarrow> m_name m \<in> {''pyint'', ''year''})"
proof -
  have policy: "get_return_type m = first_match return_type_policy (m_name m)"
    by (simp add: get_return_type_def return_type_policy_def Let_def)
  have same: "\<forall>m'. m_name m' = m_name m \<longrightarrow> get_return_type m' = get_return_type m"
    by (simp add: get_return_type_def)
  have tags:
    "(get_return_type m = W_List_float \<longleftrightarrow> m_name m = ''latitude_longitude'') \<and>
     (get_return_type m = W_List_str \<longleftrightarrow>
        m_name m \<in> {''first_names'', ''last_names'', ''names'', ''usernames'',
                     ''paragraphs'', ''sentences'', ''slugs'', ''texts'', ''words''}) \<and>
     (get_return_type m = W_float \<longleftrightarrow> m_name m \<in> {''latitude'', ''longitude''}) \<and>
     (get_return_type m = W_bool \<longleftrightarrow> m_name m = ''pybool'') \<and>
     (get_return_type m = W_int \<longleftrightarrow> m_name m \<in> {''pyint'', ''year''})"
    using listed_names_reach_their_rule [of "m_name m"]
    by (auto simp: get_return_type_def Let_def)
  have one: "\<exists>!t. get_return_type m = t" by simp
  from policy one same tags show ?thesis by (intro conjI) blast+
qed

theorem get_return_type_first_match_witness:
  "get_return_type \<lparr>m_name = ''latitude_longitude'', m_signature = [], m_doc = None,
       m_call = (\<lambda>kw. Inr PyNone)\<rparr> = W_List_float \<and>
   get_return_type \<lparr>m_name = ''latitude_longitude'', m_signature = [], m_doc = Some ''doc'',
       m_call = (\<lambda>kw. Inr (PyInt 1))\<rparr> = W_List_float \<and>
   first_match return_type_policy ''latitude_longitude'' = W_List_float"
  using get_return_type_first_match
    [of "\<lparr>m_name = ''latitude_longitude'', m_signature = [], m_doc = None,
           m_call = (\<lambda>kw. Inr PyNone)\<rparr>"]
  by (simp add: get_return_type_def BINARY_FORMATS_def endswith_def Let_def)

section \<open>Wire-safe types\<close>






section \<open>The parameter filter\<close>




section \<open>Base64 round trip\<close>

lemma index_of_nth: "distinct xs \<Longrightarrow> k < length xs \<Longrightarrow> index_of (xs ! k) xs = Some k"
proof (induction xs arbitrary: k)
  case Nil
  then show ?case by simp
next
  case (Cons y ys)
  show ?case
  proof (cases k)
    case 0
    then show ?thesis by simp
  next
    case (Suc j)
    with Cons.prems have "j < length ys" "ys ! j \<noteq> y" "distinct ys" by auto
    with Cons.IH [of j] Suc show ?thesis by simp
  qed
qed

lemma distinct_b64_alphabet: "distinct b64_alphabet"
  by (simp add: b64_alphabet_def)

lemma length_b64_alphabet: "length b64_alphabet = 64"
  by (simp add: b64_alphabet_def)

lemma b64_value_char: "k < 64 \<Longrightarrow> b64_value (b64_char k) = Some k"
  unfolding b64_value_def b64_char_def
  by (rule index_of_nth) (simp_all add: distinct_b64_alphabet length_b64_alphabet)

lemma b64_value_pad: "b64_value (CHR ''='') = None"
  by (simp add: b64_value_def b64_alphabet_def)

lemma b64_char_not_pad: "k < 64 \<Longrightarrow> b64_char k \<noteq> CHR ''=''"
  using b64_value_char [of k] b64_value_pad by auto

lemma unat_byte_less: "unat (a :: byte) < 256"
proof -
  have "unat a < 2 ^ LENGTH(8)" by (rule unsigned_less)
  then show ?thesis by simp
qed

lemma of_nat_unat_byte: "of_nat (unat (a :: byte)) = a"
  by simp

lemma recombine24:
  fixes n :: nat
  shows "n div 262144 * 262144 + n div 4096 mod 64 * 4096 + n div 64 mod 64 * 64 + n mod 64 = n"
proof -
  have a: "n mod 4096 = 64 * (n div 64 mod 64) + n mod 64"
    using mod_mult2_eq [of n 64 64] by simp
  have b: "n mod 262144 = 4096 * (n div 4096 mod 64) + n mod 4096"
    using mod_mult2_eq [of n 4096 64] by simp
  have c: "n = n div 262144 * 262144 + n mod 262144" by simp
  show ?thesis using a b c by linarith
qed

lemma recombine18:
  fixes n :: nat
  shows "n div 4096 * 4096 + n div 64 mod 64 * 64 + n mod 64 = n"
proof -
  have a: "n mod 4096 = 64 * (n div 64 mod 64) + n mod 64"
    using mod_mult2_eq [of n 64 64] by simp
  have c: "n = n div 4096 * 4096 + n mod 4096" by simp
  show ?thesis using a c by linarith
qed

lemma decode_quad:
  assumes "n < 16777216"
  shows "b64decode (b64_char (n div 262144) # b64_char (n div 4096 mod 64) #
            b64_char (n div 64 mod 64) # b64_char (n mod 64) # rest) =
         map_option (\<lambda>bs. of_nat (n div 65536) # of_nat (n div 256 mod 256) # of_nat (n mod 256) # bs)
           (b64decode rest)"
proof -
  have b: "n div 262144 < 64" using assms by simp
  have v: "b64_value (b64_char (n div 262144)) = Some (n div 262144)"
    "b64_value (b64_char (n div 4096 mod 64)) = Some (n div 4096 mod 64)"
    "b64_value (b64_char (n div 64 mod 64)) = Some (n div 64 mod 64)"
    "b64_value (b64_char (n mod 64)) = Some (n mod 64)"
    using b by (simp_all add: b64_value_char)
  have p: "b64_char (n div 64 mod 64) \<noteq> CHR ''=''" "b64_char (n mod 64) \<noteq> CHR ''=''"
    by (simp_all add: b64_char_not_pad)
  show ?thesis
    by (simp only: b64decode.simps v p recombine24 Let_def prod.case option.case simp_thms if_False)
qed

lemma decode_last2:
  assumes "n < 262144"
  shows "b64decode [b64_char (n div 4096), b64_char (n div 64 mod 64), b64_char (n mod 64), CHR ''=''] =
         Some [of_nat (n div 4 div 256), of_nat (n div 4 mod 256)]"
proof -
  have b: "n div 4096 < 64" using assms by simp
  have v: "b64_value (b64_char (n div 4096)) = Some (n div 4096)"
    "b64_value (b64_char (n div 64 mod 64)) = Some (n div 64 mod 64)"
    "b64_value (b64_char (n mod 64)) = Some (n mod 64)"
    using b by (simp_all add: b64_value_char)
  have p: "b64_char (n mod 64) \<noteq> CHR ''=''"
    by (simp_all add: b64_char_not_pad)
  show ?thesis
    by (simp only: b64decode.simps v p recombine18 Let_def prod.case option.case simp_thms if_False if_True)
qed

lemma decode_last1:
  assumes "n < 4096"
  shows "b64decode [b64_char (n div 64), b64_char (n mod 64), CHR ''='', CHR ''=''] =
         Some [of_nat (n div 16)]"
proof -
  have b: "n div 64 < 64" using assms by simp
  have v: "b64_value (b64_char (n div 64)) = Some (n div 64)"
    "b64_value (b64_char (n mod 64)) = Some (n mod 64)"
    using b by (simp_all add: b64_value_char)
  have r: "n div 64 * 64 + n mod 64 = n" by simp
  show ?thesis
    by (simp only: b64decode.simps v r Let_def prod.case option.case simp_thms if_True)
qed

lemma bytes3:
  fixes x y z :: nat
  assumes "x < 256" "y < 256" "z < 256"
  shows "x * 65536 + y * 256 + z < 16777216"
    "(x * 65536 + y * 256 + z) div 65536 = x"
    "(x * 65536 + y * 256 + z) div 256 mod 256 = y"
    "(x * 65536 + y * 256 + z) mod 256 = z"
proof -
  define n where "n = x * 65536 + y * 256 + z"
  have lt: "y * 256 + z < 65536" using assms by linarith
  have e1: "n = (y * 256 + z) + x * 65536" by (simp add: n_def)
  have e2: "n = z + (x * 256 + y) * 256" by (simp add: n_def)
  have "n < 16777216" unfolding n_def using assms by linarith
  moreover have "n div 65536 = x" unfolding e1 using lt by simp
  moreover have d: "n div 256 = x * 256 + y" unfolding e2 using assms(3) by simp
  moreover have "n div 256 mod 256 = y" unfolding d using assms(2) by simp
  moreover have "n mod 256 = z" unfolding e2 using assms(3) by (simp only: mod_mult_self1 mod_less)
  ultimately show "x * 65536 + y * 256 + z < 16777216"
    "(x * 65536 + y * 256 + z) div 65536 = x"
    "(x * 65536 + y * 256 + z) div 256 mod 256 = y"
    "(x * 65536 + y * 256 + z) mod 256 = z"
    unfolding n_def by blast+
qed

lemma bytes2:
  fixes x y :: nat
  assumes "x < 256" "y < 256"
  shows "(x * 256 + y) * 4 < 262144"
    "(x * 256 + y) * 4 div 4 div 256 = x"
    "(x * 256 + y) * 4 div 4 mod 256 = y"
  using assms by simp_all

lemma bytes1:
  fixes x :: nat
  assumes "x < 256"
  shows "x * 16 < 4096" "x * 16 div 16 = x"
  using assms by simp_all

lemma b64decode_b64encode: "b64decode (b64encode bs) = Some bs"
proof (induction bs rule: b64encode.induct)
  case 1
  show ?case by simp
next
  case (2 a)
  note x = unat_byte_less [of a]
  show ?case
    by (simp only: b64encode.simps Let_def decode_last1 [OF bytes1(1) [OF x]] bytes1(2) [OF x]
          of_nat_unat_byte)
next
  case (3 a b)
  note x = unat_byte_less [of a] and y = unat_byte_less [of b]
  show ?case
    by (simp only: b64encode.simps Let_def decode_last2 [OF bytes2(1) [OF x y]]
          bytes2(2,3) [OF x y] of_nat_unat_byte)
next
  case (4 a b c rest)
  note x = unat_byte_less [of a] and y = unat_byte_less [of b] and z = unat_byte_less [of c]
  show ?case
    by (simp only: b64encode.simps Let_def append.simps decode_quad [OF bytes3(1) [OF x y z]]
          bytes3(2,3,4) [OF x y z] of_nat_unat_byte "4.IH" option.map)
qed


text \<open>
  Claim C8. For a tool name of the binary-format set and any byte sequence,
  \<open>serialise_result\<close> returns the standard base64 text of the bytes, and decoding that
  text gives the original bytes back.
\<close>

theorem serialise_result_base64_roundtrip:
  "name \<in> set BINARY_FORMATS \<Longrightarrow>
     serialise_result py name (PyBytes bs) = Inr (PyStr (b64encode bs)) \<and>
     b64decode (b64encode bs) = Some bs"
proof -
  assume "name \<in> set BINARY_FORMATS"
  then have encoded: "serialise_result py name (PyBytes bs) = Inr (PyStr (b64encode bs))"
    by (simp add: serialise_result_def)
  have decoded: "b64decode (b64encode bs) = Some bs"
    by (rule b64decode_b64encode)
  from encoded decoded
  show "serialise_result py name (PyBytes bs) = Inr (PyStr (b64encode bs)) \<and>
     b64decode (b64encode bs) = Some bs"
    by (rule conjI)
qed

theorem serialise_result_base64_roundtrip_witness:
  "''png'' \<in> set BINARY_FORMATS \<and>
   serialise_result sample_builtins ''png'' (PyBytes [104, 101, 108, 108, 111]) =
     Inr (PyStr ''aGVsbG8='') \<and>
   b64decode ''aGVsbG8='' = Some [104, 101, 108, 108, 111]"
proof -
  have png: "''png'' \<in> set BINARY_FORMATS" by (simp add: BINARY_FORMATS_def)
  have enc: "b64encode [104, 101, 108, 108, 111] = ''aGVsbG8=''"
    by (simp add: b64_char_def b64_alphabet_def)
  note rt = serialise_result_base64_roundtrip
      [OF png, of sample_builtins "[104, 101, 108, 108, 111]"]
  show ?thesis
    using png rt [unfolded enc] by blast
qed

section \<open>What the serialiser returns and when it raises\<close>

lemma serialise_result_error:
  "serialise_result py name r = Inl e \<Longrightarrow> derives_Exception e"
  by (cases r)
    (auto simp: serialise_result_def TypeError_def text_result_def raised_exception_def
      split: if_splits sum.splits option.splits)








section \<open>Argument binding in the wrapper\<close>

lemma bind_loop_missing:
  "first_missing args kwargs i ps = Some n \<Longrightarrow>
   bind_loop i ps args kwargs ck = Inl (TypeError (''Missing required argument: '' @ n))"
proof (induction ps arbitrary: i ck)
  case Nil
  then show ?case by simp
next
  case (Cons np ps)
  obtain name p where np: "np = (name, p)" by (cases np)
  show ?case
  proof (cases "resolve args kwargs i np = None")
    case True
    with Cons.prems np show ?thesis
      by (auto simp: resolve_def split: option.splits if_splits)
  next
    case False
    with Cons.prems have "first_missing args kwargs (Suc i) ps = Some n" by simp
    from Cons.IH [OF this] False np show ?thesis
      by (auto simp: resolve_def split: option.splits if_splits)
  qed
qed

lemma bind_loop_step:
  "resolve args kwargs i (name, p) = Some v \<Longrightarrow>
   bind_loop i ((name, p) # ps) args kwargs ck = bind_loop (Suc i) ps args kwargs (ck(name \<mapsto> v))"
  by (auto simp: resolve_def split: option.splits if_splits)

lemma bind_loop_bound:
  "first_missing args kwargs i ps = None \<Longrightarrow>
   \<exists>ck'. bind_loop i ps args kwargs ck = Inr ck' \<and>
         dom ck' = dom ck \<union> fst ` set ps \<and>
         (\<forall>n. n \<notin> fst ` set ps \<longrightarrow> ck' n = ck n) \<and>
         (distinct (map fst ps) \<longrightarrow>
            (\<forall>j < length ps. ck' (fst (ps ! j)) = resolve args kwargs (i + j) (ps ! j)))"
proof (induction ps arbitrary: i ck)
  case Nil
  then show ?case by simp
next
  case (Cons np ps)
  obtain name p where np: "np = (name, p)" by (cases np)
  from Cons.prems obtain v where v: "resolve args kwargs i (name, p) = Some v"
    and rest: "first_missing args kwargs (Suc i) ps = None"
    unfolding np by (auto split: if_splits)
  from Cons.IH [OF rest, of "ck(name \<mapsto> v)"] obtain ck' where
    b: "bind_loop (Suc i) ps args kwargs (ck(name \<mapsto> v)) = Inr ck'"
    and d: "dom ck' = dom (ck(name \<mapsto> v)) \<union> fst ` set ps"
    and o: "\<forall>n. n \<notin> fst ` set ps \<longrightarrow> ck' n = (ck(name \<mapsto> v)) n"
    and r: "distinct (map fst ps) \<longrightarrow>
            (\<forall>j < length ps. ck' (fst (ps ! j)) = resolve args kwargs (Suc i + j) (ps ! j))"
    by blast
  have 1: "bind_loop i (np # ps) args kwargs ck = Inr ck'"
    unfolding np bind_loop_step [OF v] by (rule b)
  have 2: "dom ck' = dom ck \<union> fst ` set (np # ps)" using d np by auto
  have 3: "\<forall>n. n \<notin> fst ` set (np # ps) \<longrightarrow> ck' n = ck n" using o np by auto
  have 4: "distinct (map fst (np # ps)) \<longrightarrow>
            (\<forall>j < length (np # ps). ck' (fst ((np # ps) ! j)) = resolve args kwargs (i + j) ((np # ps) ! j))"
  proof (intro impI allI)
    fix j assume dist: "distinct (map fst (np # ps))" and j: "j < length (np # ps)"
    show "ck' (fst ((np # ps) ! j)) = resolve args kwargs (i + j) ((np # ps) ! j)"
    proof (cases j)
      case 0
      from dist np have "name \<notin> fst ` set ps" by auto
      with o have "ck' name = Some v" by simp
      with 0 v np show ?thesis by simp
    next
      case (Suc k)
      with j have "k < length ps" by simp
      moreover from dist have "distinct (map fst ps)" by simp
      ultimately have "ck' (fst (ps ! k)) = resolve args kwargs (Suc i + k) (ps ! k)"
        using r by blast
      with Suc show ?thesis by simp
    qed
  qed
  from 1 2 3 4 show ?case by blast
qed

lemma bind_loop_restrict:
  "fst ` set ps \<subseteq> S \<Longrightarrow> i + length ps \<le> n \<Longrightarrow>
   bind_loop i ps (take n args) (kwargs |` S) ck = bind_loop i ps args kwargs ck"
proof (induction ps arbitrary: i ck)
  case Nil
  then show ?case by simp
next
  case (Cons np ps)
  obtain name p where np: "np = (name, p)" by (cases np)
  from Cons.prems np have name: "name \<in> S" and sub: "fst ` set ps \<subseteq> S"
    and i: "i < n" and n: "Suc i + length ps \<le> n" by auto
  have k: "(kwargs |` S) name = kwargs name" using name by simp
  have l: "i < length (take n args) \<longleftrightarrow> i < length args" using i by simp
  have t: "i < length args \<Longrightarrow> take n args ! i = args ! i" using i by simp
  note IH = Cons.IH [OF sub n]
  have step: "bind_loop i (np # ps) (take n args) (kwargs |` S) ck = bind_loop i (np # ps) args kwargs ck"
    if l: "bind_loop i (np # ps) (take n args) (kwargs |` S) ck =
             bind_loop (Suc i) ps (take n args) (kwargs |` S) (ck(name \<mapsto> v))"
      and r: "bind_loop i (np # ps) args kwargs ck = bind_loop (Suc i) ps args kwargs (ck(name \<mapsto> v))"
    for v
    unfolding l r by (rule IH)
  show ?case
  proof (cases "kwargs name")
    case (Some v)
    show ?thesis
      by (rule step [of v]) (simp_all add: np k Some)
  next
    case None
    show ?thesis
    proof (cases "i < length args")
      case True
      show ?thesis
        by (rule step [of "args ! i"]) (simp_all add: np k None True i)
    next
      case False
      show ?thesis
      proof (cases "param_default p")
        case None' : None
        from False None None' k show ?thesis unfolding np by simp
      next
        case (Some d)
        show ?thesis
          by (rule step [of d]) (simp_all add: np k None False Some)
      qed
    qed
  qed
qed

lemma bind_loop_dom:
  "bind_loop i ps args kwargs ck = Inr ck' \<Longrightarrow> dom ck' = dom ck \<union> fst ` set ps"
proof (induction ps arbitrary: i ck)
  case Nil
  then show ?case by simp
next
  case (Cons np ps)
  obtain name p where np: "np = (name, p)" by (cases np)
  from Cons.prems obtain v where
    "bind_loop (Suc i) ps args kwargs (ck(name \<mapsto> v)) = Inr ck'"
    unfolding np by (auto split: option.splits if_splits)
  from Cons.IH [OF this] np show ?case by auto
qed

lemma invoked_except_Exception:
  "invoked (snd (except_Exception attr body st)) = invoked st"
  by (simp add: except_Exception_def split: sum.splits)

text \<open>
  Claim C1, as stated, fails in its second rule. The code does not take "the next
  unconsumed positional argument": it takes the positional argument at the parameter's
  own index. With two required parameters \<open>a\<close> and \<open>b\<close>, the call \<open>tool_fn(5, a=1)\<close>
  binds \<open>a\<close> by keyword and then finds no positional argument at index 1 for \<open>b\<close>;
  the one positional argument, which no parameter has consumed, is not used, and the
  wrapper raises for \<open>b\<close>, where the rule as stated binds \<open>b\<close> to 5.
\<close>

theorem next_unconsumed_counterexample:
  "bind_next_unconsumed [int_param ''a'' None, int_param ''b'' None]
      [PyInt 5] [''a'' \<mapsto> PyInt 1] Map.empty =
     Inr [''a'' \<mapsto> PyInt 1, ''b'' \<mapsto> PyInt 5] \<and>
   tool_fn sample_builtins (returning ''pyint'' (echo ''b'')) ''pyint''
      [int_param ''a'' None, int_param ''b'' None]
      [PyInt 5] [''a'' \<mapsto> PyInt 1] sample_state =
     (Inl (TypeError ''Missing required argument: b''), sample_state)"
  by (simp add: int_param_def tool_fn_def)

text \<open>
  Claim C1, amended. For every wrapper with parameters and every mixture of positional
  and keyword arguments, each admissible parameter is bound, in order, to (1) the
  keyword argument of its name, else (2) the positional argument at the parameter's own
  index in the admissible list, else (3) its declared default. If none of these gives a
  value for some parameter, the wrapper raises \<open>TypeError\<close> with the text
  \<open>Missing required argument:\<close> and the name of the first such parameter, and leaves the
  state as it was: the underlying callable has not been invoked and nothing is logged.
  Otherwise the callable is invoked with exactly these bindings (the names of a
  signature being pairwise distinct, each name has one binding).
\<close>

theorem tool_fn_binds_by_index:
  "case first_missing args kwargs 0 params of
      Some name \<Rightarrow>
        tool_fn py callee attr params args kwargs st =
          (Inl (TypeError (''Missing required argument: '' @ name)), st)
    | None \<Rightarrow>
        (\<exists>ck. dom ck = fst ` set params \<and>
           (distinct (map fst params) \<longrightarrow>
              (\<forall>i < length params.
                  ck (fst (params ! i)) = resolve args kwargs i (params ! i))) \<and>
           tool_fn py callee attr params args kwargs st =
             except_Exception attr (call_and_serialise py callee attr ck)
               (st\<lparr>invoked := invoked st @ [ck]\<rparr>))"
proof (cases "first_missing args kwargs 0 params")
  case None
  from bind_loop_bound [OF None, of Map.empty] obtain ck where
    "bind_loop 0 params args kwargs Map.empty = Inr ck"
    "dom ck = fst ` set params"
    "distinct (map fst params) \<longrightarrow>
       (\<forall>j < length params. ck (fst (params ! j)) = resolve args kwargs j (params ! j))"
    by auto
  then show ?thesis unfolding None by (auto simp: tool_fn_def)
next
  case (Some name)
  from bind_loop_missing [OF Some, of Map.empty] show ?thesis
    unfolding Some by (simp add: tool_fn_def)
qed

theorem tool_fn_binds_by_index_witness:
  "distinct (map fst [int_param ''max_value'' None, int_param ''min_value'' (Some (PyInt 0))]) \<and>
   tool_fn sample_builtins (returning ''pyint'' (echo ''min_value'')) ''pyint''
     [int_param ''max_value'' None, int_param ''min_value'' (Some (PyInt 0))]
     [] Map.empty sample_state =
     (Inl (TypeError ''Missing required argument: max_value''), sample_state) \<and>
   fst (tool_fn sample_builtins (returning ''pyint'' (echo ''min_value'')) ''pyint''
     [int_param ''max_value'' None, int_param ''min_value'' (Some (PyInt 0))]
     [] [''max_value'' \<mapsto> PyInt 10] sample_state) = Inr (PyInt 0)"
proof -
  have d: "distinct (map fst [int_param ''max_value'' None, int_param ''min_value'' (Some (PyInt 0))])"
    by (simp add: int_param_def)
  show ?thesis
    using d
      tool_fn_binds_by_index [where args = "[]" and kwargs = Map.empty
        and params = "[int_param ''max_value'' None, int_param ''min_value'' (Some (PyInt 0))]"
        and py = sample_builtins and callee = "returning ''pyint'' (echo ''min_value'')"
        and attr = "''pyint''" and st = sample_state]
      tool_fn_binds_by_index [where args = "[]" and kwargs = "[''max_value'' \<mapsto> PyInt 10]"
        and params = "[int_param ''max_value'' None, int_param ''min_value'' (Some (PyInt 0))]"
        and py = sample_builtins and callee = "returning ''pyint'' (echo ''min_value'')"
        and attr = "''pyint''" and st = sample_state]
    by (simp add: int_param_def resolve_def tool_fn_def except_Exception_def
          call_and_serialise_def returning_def echo_def serialise_result_def
          BINARY_FORMATS_def)
qed

text \<open>
  Claim C9. The underlying callable is invoked with keyword arguments for the admissible
  parameter names only. A keyword argument of any other name and a positional argument
  beyond the number of admissible parameters are discarded: the outcome of the call is
  the one of the same call without them, so they are not forwarded and cause no error.
\<close>

theorem tool_fn_discards_extras:
  "tool_fn py method attr params args kwargs st =
     tool_fn py method attr params (take (length params) args)
       (kwargs |` (fst ` set params)) st \<and>
   (invoked (snd (tool_fn py method attr params args kwargs st)) = invoked st \<or>
    (\<exists>ck. dom ck = fst ` set params \<and>
       invoked (snd (tool_fn py method attr params args kwargs st)) = invoked st @ [ck]))"
proof -
  have "bind_loop 0 params (take (length params) args) (kwargs |` (fst ` set params)) Map.empty =
        bind_loop 0 params args kwargs Map.empty"
    by (rule bind_loop_restrict) simp_all
  then have 1: "tool_fn py method attr params args kwargs st =
     tool_fn py method attr params (take (length params) args)
       (kwargs |` (fst ` set params)) st"
    by (simp add: tool_fn_def)
  have 2: "invoked (snd (tool_fn py method attr params args kwargs st)) = invoked st \<or>
    (\<exists>ck. dom ck = fst ` set params \<and>
       invoked (snd (tool_fn py method attr params args kwargs st)) = invoked st @ [ck])"
  proof (cases "bind_loop 0 params args kwargs Map.empty")
    case (Inl e)
    then show ?thesis by (simp add: tool_fn_def)
  next
    case (Inr ck)
    from bind_loop_dom [OF Inr] have "dom ck = fst ` set params" by simp
    then show ?thesis using Inr
      by (auto simp: tool_fn_def invoked_except_Exception)
  qed
  from 1 2 show ?thesis by blast
qed

theorem tool_fn_discards_extras_witness:
  "tool_fn sample_builtins (returning ''pyint'' (echo ''a'')) ''pyint''
      [int_param ''a'' None] [PyInt 5, PyInt 6] [''zzz'' \<mapsto> PyInt 1] sample_state =
     (Inr (PyInt 5), \<lparr>logged = [], invoked = [[''a'' \<mapsto> PyInt 5]]\<rparr>) \<and>
   tool_fn sample_builtins (returning ''pyint'' (echo ''a'')) ''pyint''
      [int_param ''a'' None] [PyInt 5] Map.empty sample_state =
     (Inr (PyInt 5), \<lparr>logged = [], invoked = [[''a'' \<mapsto> PyInt 5]]\<rparr>)"
  using tool_fn_discards_extras [of sample_builtins "returning ''pyint'' (echo ''a'')" "''pyint''"
      "[int_param ''a'' None]" "[PyInt 5, PyInt 6]" "[''zzz'' \<mapsto> PyInt 1]" sample_state]
  by (simp add: int_param_def tool_fn_def except_Exception_def sample_state_def
        call_and_serialise_def returning_def echo_def serialise_result_def
        BINARY_FORMATS_def)


section \<open>Errors inside the wrapper\<close>

lemma except_Exception_Inl:
  "derives_Exception e \<Longrightarrow>
   except_Exception attr (Inl e) st =
     (Inl (raise_in_except
             (RuntimeError (''fake.py error in '' @ attr @ ''(): '' @ exc_str e)) e),
      st\<lparr>logged := logged st @ [''Error in '' @ attr @ ''(): '' @ exc_str e]\<rparr>)"
  by (simp add: except_Exception_def)

lemma except_Exception_passes:
  "\<not> derives_Exception e \<Longrightarrow> except_Exception attr (Inl e) st = (Inl e, st)"
  by (simp add: except_Exception_def)




text \<open>
  Claim C10. Serialisation runs inside the same \<open>try\<close> as the call: when the callable
  returns and \<open>serialise_result\<close> raises on the returned value, the caller gets the
  same logged line and the same single \<open>RuntimeError\<close> as for a failure of the callable
  (raised in the same \<open>except\<close> block, so with the serialiser's error as its context),
  not the serialiser's own error.
\<close>

theorem tool_fn_wraps_serialiser_error:
  assumes "m_call callee ck = Inr r" and "serialise_result py attr r = Inl e"
  shows "(bind_loop 0 params args kwargs Map.empty = Inr ck \<longrightarrow>
            tool_fn py callee attr params args kwargs st =
              (Inl (raise_in_except
                      (RuntimeError (''fake.py error in '' @ attr @ ''(): '' @ exc_str e)) e),
               st\<lparr>logged := logged st @ [''Error in '' @ attr @ ''(): '' @ exc_str e],
                  invoked := invoked st @ [ck]\<rparr>)) \<and>
         (ck = Map.empty \<longrightarrow>
            tool_fn_no_params py callee attr st =
              (Inl (raise_in_except
                      (RuntimeError (''fake.py error in '' @ attr @ ''(): '' @ exc_str e)) e),
               st\<lparr>logged := logged st @ [''Error in '' @ attr @ ''(): '' @ exc_str e],
                  invoked := invoked st @ [Map.empty]\<rparr>))"
  using assms serialise_result_error [OF assms(2)]
  by (auto simp: tool_fn_def tool_fn_no_params_def call_and_serialise_def except_Exception_Inl)

theorem tool_fn_wraps_serialiser_error_witness:
  "m_call (returning ''latitude_longitude'' (always (Inr (PyInt 5)))) Map.empty =
     Inr (PyInt 5) \<and>
   serialise_result sample_builtins ''latitude_longitude'' (PyInt 5) =
     Inl (TypeError (CHR 0x27 # ''int'' @ CHR 0x27 # '' object is not iterable'')) \<and>
   tool_fn_no_params sample_builtins
      (returning ''latitude_longitude'' (always (Inr (PyInt 5)))) ''latitude_longitude''
      sample_state =
     (Inl (raise_in_except
             (RuntimeError (''fake.py error in latitude_longitude(): '' @
                CHR 0x27 # ''int'' @ CHR 0x27 # '' object is not iterable''))
             (TypeError (CHR 0x27 # ''int'' @ CHR 0x27 # '' object is not iterable''))),
      \<lparr>logged = [''Error in latitude_longitude(): '' @
                   CHR 0x27 # ''int'' @ CHR 0x27 # '' object is not iterable''],
        invoked = [Map.empty]\<rparr>) \<and>
   fst (tool_fn sample_builtins
      (returning ''latitude_longitude'' (always (Inr (PyInt 5)))) ''latitude_longitude''
      [int_param ''a'' (Some (PyInt 0))] [] Map.empty sample_state) =
     Inl (raise_in_except
            (RuntimeError (''fake.py error in latitude_longitude(): '' @
               CHR 0x27 # ''int'' @ CHR 0x27 # '' object is not iterable''))
            (TypeError (CHR 0x27 # ''int'' @ CHR 0x27 # '' object is not iterable'')))"
proof -
  let ?m = "returning ''latitude_longitude'' (always (Inr (PyInt 5)))"
  let ?e = "TypeError (CHR 0x27 # ''int'' @ CHR 0x27 # '' object is not iterable'')"
  have c: "m_call ?m ck = Inr (PyInt 5)" for ck
    by (simp add: returning_def always_def)
  have s: "serialise_result sample_builtins ''latitude_longitude'' (PyInt 5) = Inl ?e"
    by (simp add: serialise_result_def BINARY_FORMATS_def)
  have b: "bind_loop 0 [int_param ''a'' (Some (PyInt 0))] [] Map.empty Map.empty =
             Inr [''a'' \<mapsto> PyInt 0]"
    by (simp add: int_param_def)
  show ?thesis
    using c s b
      tool_fn_wraps_serialiser_error [OF c [of Map.empty] s,
        where params = "[int_param ''a'' (Some (PyInt 0))]" and args = "[]"
          and kwargs = Map.empty and st = sample_state]
      tool_fn_wraps_serialiser_error [OF c [of "[''a'' \<mapsto> PyInt 0]"] s,
        where params = "[int_param ''a'' (Some (PyInt 0))]" and args = "[]"
          and kwargs = Map.empty and st = sample_state]
    by (simp add: sample_state_def TypeError_def)
qed

section \<open>The registration pass\<close>

lemma register_loop_prefix:
  "register_loop F pl M = Inr M1 \<Longrightarrow> \<exists>new. M1 = M @ new"
proof (induction pl arbitrary: M)
  case Nil
  then show ?case by simp
next
  case (Cons a pl)
  then show ?case
    by (fastforce simp: MCP_tool_def Let_def
          split: if_splits option.splits faker_attr.splits)
qed

lemma register_loop_names:
  "register_loop F pl M = Inr M1 \<Longrightarrow>
   set (map tool_name M1) = set (map tool_name M) \<union> {a \<in> set pl. qualifying F a}"
proof (induction pl arbitrary: M)
  case Nil
  then show ?case by simp
next
  case (Cons a pl)
  show ?case
  proof (cases "qualifying F a \<and> \<not> hasattr_MCP M a")
    case True
    then obtain f where m: "F a = Some (Method f)" and s: "\<not> startswith a ''_''"
      and h: "\<not> hasattr_MCP M a"
      by (auto simp: qualifying_def)
    define t where "t = \<lparr>tool_name = a, tool_description = doc_of f a, tool_method = f,
        tool_params = get_supported_params (m_signature f),
        tool_return_type = get_return_type f\<rparr>"
    from Cons.prems m s h have "register_loop F pl (M @ [t]) = Inr M1"
      by (simp add: MCP_tool_def Let_def t_def)
    from Cons.IH [OF this] have
      "set (map tool_name M1) = set (map tool_name (M @ [t])) \<union> {a \<in> set pl. qualifying F a}" .
    moreover have "tool_name t = a" by (simp add: t_def)
    ultimately show ?thesis using True by auto
  next
    case False
    with Cons.prems have r: "register_loop F pl M = Inr M1"
      by (auto simp: qualifying_def split: if_splits option.splits faker_attr.splits)
    from False have "qualifying F a \<Longrightarrow> a \<in> set (map tool_name M)"
      by (auto simp: hasattr_MCP_def)
    with Cons.IH [OF r] show ?thesis by auto
  qed
qed

lemma register_loop_distinct:
  "register_loop F pl M = Inr M1 \<Longrightarrow> distinct (map tool_name M) \<Longrightarrow>
   distinct (map tool_name M1)"
proof (induction pl arbitrary: M)
  case Nil
  then show ?case by simp
next
  case (Cons a pl)
  show ?case
  proof (cases "qualifying F a \<and> \<not> hasattr_MCP M a")
    case True
    then obtain f where m: "F a = Some (Method f)" and s: "\<not> startswith a ''_''"
      and h: "\<not> hasattr_MCP M a"
      by (auto simp: qualifying_def)
    define t where "t = \<lparr>tool_name = a, tool_description = doc_of f a, tool_method = f,
        tool_params = get_supported_params (m_signature f),
        tool_return_type = get_return_type f\<rparr>"
    from Cons.prems m s h have r: "register_loop F pl (M @ [t]) = Inr M1"
      by (simp add: MCP_tool_def Let_def t_def)
    have "distinct (map tool_name (M @ [t]))"
      using Cons.prems(2) h by (simp add: hasattr_MCP_def t_def)
    from Cons.IH [OF r this] show ?thesis .
  next
    case False
    with Cons.prems have r: "register_loop F pl M = Inr M1"
      by (auto simp: qualifying_def split: if_splits option.splits faker_attr.splits)
    from Cons.IH [OF r Cons.prems(2)] show ?thesis .
  qed
qed

lemma register_loop_getattr:
  "register_loop F pl M = Inr M1 \<Longrightarrow> \<forall>a \<in> set pl. \<not> startswith a ''_'' \<longrightarrow> F a \<noteq> None"
proof (induction pl arbitrary: M)
  case Nil
  then show ?case by simp
next
  case (Cons a pl)
  from Cons.prems have 1: "\<not> startswith a ''_'' \<longrightarrow> F a \<noteq> None"
    by (auto split: if_splits option.splits)
  from Cons.prems obtain M' where "register_loop F pl M' = Inr M1"
    by (auto simp: Let_def split: if_splits option.splits faker_attr.splits)
  from Cons.IH [OF this] 1 show ?case by simp
qed

lemma register_loop_skips:
  "\<forall>a \<in> set pl. \<not> startswith a ''_'' \<longrightarrow> F a \<noteq> None \<Longrightarrow>
   \<forall>a \<in> set pl. qualifying F a \<longrightarrow> hasattr_MCP M a \<Longrightarrow>
   register_loop F pl M = Inr M"
  by (induction pl) (auto simp: qualifying_def split: option.splits faker_attr.splits)

lemma count_list_distinct: "distinct xs \<Longrightarrow> x \<in> set xs \<Longrightarrow> count_list xs x = 1"
  by (induction xs) auto

text \<open>
  Claim C3. When a registration pass has run to its end, a second pass over the same
  provider list registers nothing more: every name it meets is already registered and
  is skipped. The tools that were registered before a pass stay as they are (the first
  registration of a name wins), the names in the registry are pairwise distinct, and
  every qualifying name of the provider list is in the registry exactly once.
\<close>

theorem register_fakepy_tools_idempotent:
  assumes "register_fakepy_tools FAKER PROVIDER_LIST MCP = Inr MCP1"
    and "distinct (map tool_name MCP)"
  shows "register_fakepy_tools FAKER PROVIDER_LIST MCP1 = Inr MCP1 \<and>
         distinct (map tool_name MCP1) \<and>
         (\<forall>attr \<in> set PROVIDER_LIST. qualifying FAKER attr \<longrightarrow>
            count_list (map tool_name MCP1) attr = 1) \<and>
         (\<exists>new. MCP1 = MCP @ new)"
proof -
  from assms(1) have r: "register_loop FAKER PROVIDER_LIST MCP = Inr MCP1"
    by (simp add: register_fakepy_tools_def)
  note names = register_loop_names [OF r]
  have d: "distinct (map tool_name MCP1)"
    by (rule register_loop_distinct [OF r assms(2)])
  have h: "\<forall>a \<in> set PROVIDER_LIST. qualifying FAKER a \<longrightarrow> hasattr_MCP MCP1 a"
    using names by (auto simp: hasattr_MCP_def)
  have 1: "register_fakepy_tools FAKER PROVIDER_LIST MCP1 = Inr MCP1"
    unfolding register_fakepy_tools_def
    by (rule register_loop_skips [OF register_loop_getattr [OF r] h])
  have 3: "\<forall>attr \<in> set PROVIDER_LIST. qualifying FAKER attr \<longrightarrow>
            count_list (map tool_name MCP1) attr = 1"
    using h d by (auto simp: hasattr_MCP_def count_list_distinct)
  from 1 d 3 register_loop_prefix [OF r] show ?thesis by blast
qed

theorem register_fakepy_tools_idempotent_witness:
  "register_fakepy_tools sample_faker [''_seed'', ''name'', ''pyint'', ''version''] [] =
     Inr sample_registry \<and>
   distinct (map tool_name ([] :: mcp)) \<and>
   register_fakepy_tools sample_faker [''_seed'', ''name'', ''pyint'', ''version'']
     sample_registry = Inr sample_registry \<and>
   map tool_name sample_registry = [''name'', ''pyint''] \<and>
   count_list (map tool_name sample_registry) ''pyint'' = 1"
proof -
  have first: "register_fakepy_tools sample_faker [''_seed'', ''name'', ''pyint'', ''version''] [] =
      Inr sample_registry"
    by (simp add: register_fakepy_tools_def startswith_def sample_faker_def hasattr_MCP_def
          MCP_tool_def sample_registry_def doc_of_def returning_def sample_pyint_def
          int_param_def get_supported_params_def lower_def is_supported_type_def
          SIMPLE_TYPES_def get_return_type_def BINARY_FORMATS_def endswith_def Let_def)
  have d: "distinct (map tool_name ([] :: mcp))" by simp
  have q: "qualifying sample_faker ''pyint''"
    by (simp add: qualifying_def startswith_def sample_faker_def)
  have n: "map tool_name sample_registry = [''name'', ''pyint'']"
    by (simp add: sample_registry_def)
  from register_fakepy_tools_idempotent [OF first d] q
  have "register_fakepy_tools sample_faker [''_seed'', ''name'', ''pyint'', ''version'']
          sample_registry = Inr sample_registry"
    and "count_list (map tool_name sample_registry) ''pyint'' = 1"
    by simp_all
  with first d n show ?thesis by blast
qed

end
